theory Spec2Isabelle
  imports Complex_Main "HOL-Library.Signed_Division" "HOL-Library.Log_Nat"
begin

section \<open>JavaScript values\<close>

text \<open>
  The simulator of \<^verbatim>\<open>robot-simulator.js\<close> is dynamically typed: every argument of a
  public method may be any JavaScript value, and the validation helpers of
  \<^verbatim>\<open>utils\<close> decide by \<^verbatim>\<open>typeof\<close> and by the \<^verbatim>\<open>constructor\<close> property. The values are
  therefore a datatype of their own.

  A Number is an IEEE 754 double: NaN, one of the two infinities, the negative zero, or
  \<open>Num q\<close> for any other finite double, \<open>q\<close> being its value, a rational. The finite
  doubles are the numbers \<open>m * 2^e\<close> with \<open>m\<close> an integer of magnitude below \<open>2^53\<close> and
  \<open>-1074 \<le> e \<le> 971\<close>; every one of them is a multiple of \<open>2^-1074\<close>.

  \<open>JObj kvs\<close> is an object whose prototype is \<^verbatim>\<open>Object.prototype\<close>, with its own
  enumerable properties \<open>kvs\<close> in insertion order. \<open>JObjectCtor\<close> is the global function
  \<^verbatim>\<open>Object\<close> itself. \<open>JOther\<close> is any other object (an instance of a class, a function,
  a Date, an object without prototype): its \<^verbatim>\<open>constructor\<close> is not \<^verbatim>\<open>Object\<close>.

  A string is a list of characters; \<^verbatim>\<open>toUpperCase\<close> is modelled on ASCII, every other
  character being left alone (no character outside ASCII has an upper case made of the
  letters A, L and R only).
\<close>

datatype jsnum = NaN | Infinity | NegInfinity | NegZero | Num rat

datatype jsval =
    JUndefined
  | JNull
  | JBool bool
  | JNum jsnum
  | JStr string
  | JArr "jsval list"
  | JObj "(string \<times> jsval) list"
  | JObjectCtor
  | JOther

text \<open>
  What a method can throw: \<^verbatim>\<open>InvalidInputError\<close> (the class of the module, with its
  message), a plain \<^verbatim>\<open>Error\<close> (with its message), and the \<^verbatim>\<open>TypeError\<close> of the runtime
  (reading a property of \<^verbatim>\<open>undefined\<close>, calling something that is not a function).
\<close>

datatype error = InvalidInputError string | Error string | TypeError

text \<open>
  Rounding to the nearest double, ties to the even significand (the rounding of every
  arithmetic operation on Numbers). \<open>round53\<close> rounds a natural number to 53 significant
  bits: with \<open>e\<close> the number of bits beyond 53, the number lies between the neighbours
  \<open>q * 2^e\<close> and \<open>(q + 1) * 2^e\<close>, and the remainder \<open>r\<close> decides between them.
  \<open>round_double\<close> rounds an exact sum or difference of two doubles, which is a multiple
  \<open>k * 2^-1074\<close> of the smallest positive double: the magnitude of \<open>k\<close> is rounded to 53
  bits, and a result of \<open>2^1024\<close> or more overflows to an infinity. An exact result of
  zero is the positive zero.
\<close>

definition round53 :: "int \<Rightarrow> int" where
  "round53 a =
     (let e = nat (bitlen a - 53) in
      if e = 0 then a
      else
        let q = a div 2 ^ e; r = a mod 2 ^ e; half = 2 ^ (e - 1)
        in (if half < r \<or> (r = half \<and> odd q) then q + 1 else q) * 2 ^ e)"

definition round_double :: "rat \<Rightarrow> jsnum" where
  "round_double q =
     (let k = \<lfloor>q * 2 ^ 1074\<rfloor>; a = round53 \<bar>k\<bar> in
      if 2 ^ 2098 \<le> a then (if k < 0 then NegInfinity else Infinity)
      else Num (of_int (sgn k * a) / 2 ^ 1074))"

text \<open>
  \<^verbatim>\<open>x++\<close> and \<^verbatim>\<open>x--\<close> on a Number: the new value is the double sum \<^verbatim>\<open>x + 1\<close>, the double
  difference \<^verbatim>\<open>x - 1\<close>.
\<close>

fun increment :: "jsnum \<Rightarrow> jsnum" where
  "increment NaN = NaN"
| "increment Infinity = Infinity"
| "increment NegInfinity = NegInfinity"
| "increment NegZero = Num 1"
| "increment (Num q) = round_double (q + 1)"

fun decrement :: "jsnum \<Rightarrow> jsnum" where
  "decrement NaN = NaN"
| "decrement Infinity = Infinity"
| "decrement NegInfinity = NegInfinity"
| "decrement NegZero = Num (- 1)"
| "decrement (Num q) = round_double (q - 1)"

text \<open>Truthiness, as \<^verbatim>\<open>obj && ...\<close> tests it.\<close>

fun truthy :: "jsval \<Rightarrow> bool" where
  "truthy JUndefined = False"
| "truthy JNull = False"
| "truthy (JBool b) = b"
| "truthy (JNum n) = (n \<noteq> NaN \<and> n \<noteq> Num 0 \<and> n \<noteq> NegZero)"
| "truthy (JStr s) = (s \<noteq> [])"
| "truthy (JArr xs) = True"
| "truthy (JObj kvs) = True"
| "truthy JObjectCtor = True"
| "truthy JOther = True"

text \<open>
  \<^verbatim>\<open>obj.constructor === Object\<close> for a truthy \<open>obj\<close>. An own property named
  \<^verbatim>\<open>constructor\<close> shadows the one inherited from \<^verbatim>\<open>Object.prototype\<close>.
\<close>

fun constructor_is_Object :: "jsval \<Rightarrow> bool" where
  "constructor_is_Object (JObj kvs) =
     (case map_of kvs ''constructor'' of None \<Rightarrow> True | Some v \<Rightarrow> v = JObjectCtor)"
| "constructor_is_Object _ = False"

text \<open>
  The property read \<^verbatim>\<open>obj.k\<close> of the destructuring in \<open>place\<close>, for the keys \<^verbatim>\<open>x\<close>, \<^verbatim>\<open>y\<close> and
  \<^verbatim>\<open>direction\<close> (which \<^verbatim>\<open>Object.prototype\<close> does not have: a record without the key reads
  \<^verbatim>\<open>undefined\<close>), and \<^verbatim>\<open>Object.keys\<close>; both on a value that passed \<open>validateObject\<close>.
\<close>

fun get_property :: "jsval \<Rightarrow> string \<Rightarrow> jsval" where
  "get_property (JObj kvs) k = (case map_of kvs k of None \<Rightarrow> JUndefined | Some v \<Rightarrow> v)"
| "get_property _ k = JUndefined"

fun Object_keys :: "jsval \<Rightarrow> string list" where
  "Object_keys (JObj kvs) = map fst kvs"
| "Object_keys _ = []"

text \<open>
  \<^verbatim>\<open>Array.prototype.indexOf\<close>: the first index holding the value, \<open>-1\<close> when there is
  none; and the read \<^verbatim>\<open>xs[i]\<close>, which is \<^verbatim>\<open>undefined\<close> out of range.
\<close>

fun indexOf :: "jsval list \<Rightarrow> jsval \<Rightarrow> int" where
  "indexOf [] v = -1"
| "indexOf (x # xs) v =
     (if x = v then 0 else (let i = indexOf xs v in if i < 0 then -1 else i + 1))"

definition element :: "jsval list \<Rightarrow> int \<Rightarrow> jsval" where
  "element xs i = (if 0 \<le> i \<and> nat i < length xs then xs ! nat i else JUndefined)"

text \<open>\<^verbatim>\<open>String.prototype.toUpperCase\<close>, and the test of \<^verbatim>\<open>/^[ARL]+$/\<close>.\<close>

definition toUpperCase_char :: "char \<Rightarrow> char" where
  "toUpperCase_char c =
     (let n = (of_char c :: nat) in if 97 \<le> n \<and> n \<le> 122 then char_of (n - 32) else c)"

definition toUpperCase :: "string \<Rightarrow> string" where
  "toUpperCase s = map toUpperCase_char s"

definition test_ARL :: "string \<Rightarrow> bool" where
  "test_ARL s = (s \<noteq> [] \<and> list_all (\<lambda>c. c \<in> set ''ARL'') s)"

section \<open>The validation helpers of utils\<close>

fun validateNumber :: "jsval \<Rightarrow> bool" where
  "validateNumber (JNum n) = (n \<noteq> NaN)"
| "validateNumber _ = False"

fun validateString :: "jsval \<Rightarrow> bool" where
  "validateString (JStr s) = True"
| "validateString _ = False"

definition validateObject :: "jsval \<Rightarrow> bool" where
  "validateObject obj = (truthy obj \<and> constructor_is_Object obj)"

section \<open>The class Robot\<close>

text \<open>
  The two fields of an instance. \<open>orientation\<close> is \<^verbatim>\<open>undefined\<close> after the constructor and
  is assigned by \<open>orient\<close> only. \<open>coords\<close> is \<^verbatim>\<open>undefined\<close> after the constructor (\<open>None\<close>)
  and is assigned by \<open>at_coords\<close> only, a fresh array of two validated Numbers each time,
  which \<open>advance\<close> updates in place.
\<close>

record Robot =
  orientation :: jsval
  coords :: "(jsnum \<times> jsnum) option"

text \<open>
  A method takes the instance and returns how it completed (\<open>Inl\<close> what it threw,
  \<open>Inr\<close> what it returned) with the instance as the method left it.
\<close>

type_synonym completion = "(error + jsval) \<times> Robot"

definition new_Robot :: Robot where
  "new_Robot = \<lparr>orientation = JUndefined, coords = None\<rparr>"

definition directions :: "string list" where
  "directions = [''north'', ''east'', ''south'', ''west'']"

definition commands :: "(string \<times> string) list" where
  "commands = [(''A'', ''advance''), (''L'', ''turnLeft''), (''R'', ''turnRight'')]"

definition orient :: "jsval \<Rightarrow> Robot \<Rightarrow> completion" where
  "orient v r =
     (if v \<notin> set (map JStr directions)
      then (Inl (InvalidInputError ''Must enter a valid orientation''), r)
      else (Inr JUndefined, r\<lparr>orientation := v\<rparr>))"

definition bearing :: "Robot \<Rightarrow> jsval" where
  "bearing r = orientation r"

definition coordinates :: "Robot \<Rightarrow> jsval" where
  "coordinates r = (case coords r of None \<Rightarrow> JUndefined | Some (x, y) \<Rightarrow> JArr [JNum x, JNum y])"

definition turn :: "jsval \<Rightarrow> Robot \<Rightarrow> completion" where
  "turn turnDirection r =
     (if \<not> validateString turnDirection
      then (Inl (InvalidInputError ''Must enter a valid turn direction''), r)
      else
        let direction = (if turnDirection = JStr ''right'' then 1 else 3);
            currentDirectionIndex = indexOf (map JStr directions) (bearing r);
            newOrientation =
              element (map JStr directions)
                ((currentDirectionIndex + direction) smod int (length directions))
        in orient newOrientation r)"

definition turnRight :: "Robot \<Rightarrow> completion" where
  "turnRight r = turn (JStr ''right'') r"

definition turnLeft :: "Robot \<Rightarrow> completion" where
  "turnLeft r = turn (JStr ''left'') r"

text \<open>
  The method \<^verbatim>\<open>at\<close> (\<open>at\<close> being a name of the library, it is \<open>at_coords\<close> here). It
  stores the array \<^verbatim>\<open>[x, y]\<close> once both arguments are Numbers other than NaN;
  \<open>number_of\<close> reads the Number such an argument is.
\<close>

fun number_of :: "jsval \<Rightarrow> jsnum" where
  "number_of (JNum n) = n"
| "number_of _ = NaN"

definition at_coords :: "jsval \<Rightarrow> jsval \<Rightarrow> Robot \<Rightarrow> completion" where
  "at_coords x y r =
     (if \<not> validateNumber x \<or> \<not> validateNumber y
      then (Inl (InvalidInputError ''Must enter valid coordinates''), r)
      else (Inr JUndefined, r\<lparr>coords := Some (number_of x, number_of y)\<rparr>))"

text \<open>
  \<open>advance\<close>: the post-increment returns the old coordinate; on a robot without
  coordinates \<^verbatim>\<open>this.coords[1]\<close> reads a property of \<^verbatim>\<open>undefined\<close>, a \<^verbatim>\<open>TypeError\<close>.
\<close>

definition advance :: "Robot \<Rightarrow> completion" where
  "advance r =
     (if orientation r = JStr ''north'' then
        (case coords r of None \<Rightarrow> (Inl TypeError, r)
         | Some (x, y) \<Rightarrow> (Inr (JNum y), r\<lparr>coords := Some (x, increment y)\<rparr>))
      else if orientation r = JStr ''east'' then
        (case coords r of None \<Rightarrow> (Inl TypeError, r)
         | Some (x, y) \<Rightarrow> (Inr (JNum x), r\<lparr>coords := Some (increment x, y)\<rparr>))
      else if orientation r = JStr ''south'' then
        (case coords r of None \<Rightarrow> (Inl TypeError, r)
         | Some (x, y) \<Rightarrow> (Inr (JNum y), r\<lparr>coords := Some (x, decrement y)\<rparr>))
      else if orientation r = JStr ''west'' then
        (case coords r of None \<Rightarrow> (Inl TypeError, r)
         | Some (x, y) \<Rightarrow> (Inr (JNum x), r\<lparr>coords := Some (decrement x, y)\<rparr>))
      else (Inr (coordinates r), r))"

text \<open>
  The static method \<open>instructions\<close>: the test is made on the upper-cased string, the
  lookup in \<open>commands\<close> on the characters as they were given; a key that \<open>commands\<close> does
  not have reads as \<^verbatim>\<open>undefined\<close>.
\<close>

definition instructions_message :: string where
  "instructions_message =
     ''Must enter a valid instruction command string. Allowed characters are ''
       @ [CHR 0x22] @ ''L'' @ [CHR 0x22] @ '', '' @ [CHR 0x22] @ ''R'' @ [CHR 0x22]
       @ '' and '' @ [CHR 0x22] @ ''A'' @ [CHR 0x22]"

definition command_of :: "char \<Rightarrow> jsval" where
  "command_of c = (case map_of commands [c] of None \<Rightarrow> JUndefined | Some m \<Rightarrow> JStr m)"

fun instructions :: "jsval \<Rightarrow> error + jsval list" where
  "instructions (JStr s) =
     (if \<not> validateString (JStr s) \<or> \<not> test_ARL (toUpperCase s)
      then Inl (InvalidInputError instructions_message)
      else Inr (map command_of s))"
| "instructions v = Inl (InvalidInputError instructions_message)"

definition place :: "jsval \<Rightarrow> Robot \<Rightarrow> completion" where
  "place placement r =
     (if \<not> validateObject placement then (Inl (Error ''Invalid placement data type''), r)
      else if length (Object_keys placement) = 0
      then (Inl (Error ''Placement data must not be empty''), r)
      else
        let x = get_property placement ''x'';
            y = get_property placement ''y'';
            direction = get_property placement ''direction''
        in (case at_coords x y r of
              (Inl e, r') \<Rightarrow> (Inl e, r')
            | (Inr _, r') \<Rightarrow> orient direction r'))"

text \<open>
  \<^verbatim>\<open>this[instruction]()\<close> for the values \<open>instructions\<close> can return: the three method
  names of \<open>commands\<close>, and \<^verbatim>\<open>undefined\<close>, for which \<^verbatim>\<open>this[undefined]\<close> is no function
  and the call throws a \<^verbatim>\<open>TypeError\<close>.
\<close>

definition call_method :: "jsval \<Rightarrow> Robot \<Rightarrow> completion" where
  "call_method instruction r =
     (if instruction = JStr ''advance'' then advance r
      else if instruction = JStr ''turnLeft'' then turnLeft r
      else if instruction = JStr ''turnRight'' then turnRight r
      else (Inl TypeError, r))"

text \<open>\<^verbatim>\<open>forEach\<close>: one call per element, in order; a throw ends the loop.\<close>

fun forEach :: "jsval list \<Rightarrow> Robot \<Rightarrow> completion" where
  "forEach [] r = (Inr JUndefined, r)"
| "forEach (instruction # rest) r =
     (case call_method instruction r of
        (Inl e, r') \<Rightarrow> (Inl e, r')
      | (Inr _, r') \<Rightarrow> forEach rest r')"

definition evaluate :: "jsval \<Rightarrow> Robot \<Rightarrow> completion" where
  "evaluate v r =
     (case instructions v of
        Inl e \<Rightarrow> (Inl e, r)
      | Inr instructionsCommands \<Rightarrow> forEach instructionsCommands r)"

section \<open>Notions used in the statements\<close>

text \<open>An error is of the kind \<^verbatim>\<open>InvalidInputError\<close>.\<close>

fun is_InvalidInput :: "error \<Rightarrow> bool" where
  "is_InvalidInput (InvalidInputError m) = True"
| "is_InvalidInput _ = False"

text \<open>
  The state after every method of a list has been called in order, whatever each call
  returned or threw: \<open>forEach\<close> without its exit. Where \<open>forEach\<close> returns normally and the
  two agree, no call was left out.
\<close>

fun run_all :: "jsval list \<Rightarrow> Robot \<Rightarrow> Robot" where
  "run_all [] r = r"
| "run_all (instruction # rest) r = run_all rest (snd (call_method instruction r))"

text \<open>
  What a caller can do with an instance, one public method call at a time, and the state
  after a series of calls, each one made whether the one before returned or threw (the
  caller having caught what it threw).
\<close>

datatype call =
    Orient jsval | TurnLeft | TurnRight | At jsval jsval | Advance | Place jsval | Evaluate jsval

fun perform :: "call \<Rightarrow> Robot \<Rightarrow> completion" where
  "perform (Orient v) r = orient v r"
| "perform TurnLeft r = turnLeft r"
| "perform TurnRight r = turnRight r"
| "perform (At x y) r = at_coords x y r"
| "perform Advance r = advance r"
| "perform (Place p) r = place p r"
| "perform (Evaluate v) r = evaluate v r"

fun perform_all :: "call list \<Rightarrow> Robot \<Rightarrow> Robot" where
  "perform_all [] r = r"
| "perform_all (c # cs) r = perform_all cs (snd (perform c r))"

section \<open>Arithmetic on the safe integers, and beyond\<close>

text \<open>
  A number with at most 53 significant bits is its own rounding, so every integer of
  magnitude up to \<open>2^53\<close> is a double, and \<^verbatim>\<open>++\<close> and \<^verbatim>\<open>--\<close> are exact on the integers of
  magnitude below \<open>2^53\<close>. The sum \<open>2^53 + 1\<close> lies halfway between the doubles \<open>2^53\<close>
  and \<open>2^53 + 2\<close> and is rounded to the first.
\<close>

lemma round53_0: "round53 0 = 0"
  by (simp add: round53_def)

lemma round53_exact:
  assumes "0 < m" "m < 2 ^ 53"
  shows "round53 (m * 2 ^ j) = m * 2 ^ j"
proof -
  have b: "bitlen (m * 2 ^ j) = bitlen m + int j"
    using assms(1) by simp
  have "bitlen m \<le> 53"
    using assms(2) by (simp add: bitlen_le_iff_power)
  then have e: "nat (bitlen (m * 2 ^ j) - 53) \<le> j"
    using b by simp
  define e where "e = nat (bitlen (m * 2 ^ j) - 53)"
  from e have ej: "e \<le> j" by (simp add: e_def)
  then have dvd: "(2::int) ^ e dvd m * 2 ^ j"
    by (simp add: le_imp_power_dvd dvd_mult)
  show ?thesis
  proof (cases "e = 0")
    case True
    then show ?thesis by (simp add: round53_def e_def)
  next
    case False
    from dvd have r: "(m * 2 ^ j) mod 2 ^ e = 0" by (simp add: mod_eq_0_iff_dvd)
    from dvd have q: "(m * 2 ^ j) div 2 ^ e * 2 ^ e = m * 2 ^ j" by simp
    have h: "(0::int) < 2 ^ (e - 1)" by simp
    show ?thesis
      unfolding round53_def Let_def e_def [symmetric]
      using False r q h by simp
  qed
qed

lemma round53_safe:
  assumes "0 \<le> n" "n \<le> 2 ^ 53"
  shows "round53 (n * 2 ^ 1074) = n * 2 ^ 1074"
proof -
  consider "n = 0" | "0 < n" "n < 2 ^ 53" | "n = 2 ^ 53"
    using assms by linarith
  then show ?thesis
  proof cases
    case 1
    then show ?thesis by (simp add: round53_0)
  next
    case 2
    then show ?thesis by (rule round53_exact)
  next
    case 3
    have "round53 (2 ^ 52 * 2 ^ 1075) = 2 ^ 52 * 2 ^ 1075"
      by (rule round53_exact) simp_all
    moreover have "n * 2 ^ 1074 = (2 ^ 52 * 2 ^ 1075 :: int)"
      unfolding 3 by (simp only: power_add [symmetric]) simp
    ultimately show ?thesis by simp
  qed
qed

lemma round_double_int:
  assumes "\<bar>i\<bar> \<le> 2 ^ 53"
  shows "round_double (of_int i) = Num (of_int i)"
proof -
  have k: "\<lfloor>(of_int i :: rat) * 2 ^ 1074\<rfloor> = i * 2 ^ 1074"
  proof -
    have "(of_int i :: rat) * 2 ^ 1074 = of_int (i * 2 ^ 1074)" by simp
    then show ?thesis by (simp only: floor_of_int)
  qed
  have abs: "\<bar>i * 2 ^ 1074\<bar> = \<bar>i\<bar> * 2 ^ 1074"
    by (simp add: abs_mult)
  have a: "round53 \<bar>i * 2 ^ 1074\<bar> = \<bar>i\<bar> * 2 ^ 1074"
    unfolding abs using assms by (intro round53_safe) simp_all
  have "\<bar>i\<bar> * 2 ^ 1074 \<le> (2 ^ 53 * 2 ^ 1074 :: int)"
    using assms by (intro mult_right_mono) simp_all
  also have "\<dots> < 2 ^ 2098"
    by (simp only: power_add [symmetric]) simp
  finally have lt: "\<not> 2 ^ 2098 \<le> \<bar>i\<bar> * 2 ^ 1074" by simp
  have s: "sgn (i * 2 ^ 1074) * (\<bar>i\<bar> * 2 ^ 1074) = i * 2 ^ 1074"
    by (simp add: sgn_mult mult.assoc [symmetric] mult_sgn_abs)
  have d: "(of_int (i * 2 ^ 1074) :: rat) / 2 ^ 1074 = of_int i"
    by simp
  show ?thesis
    unfolding round_double_def Let_def k a
    by (simp only: lt s d if_False)
qed

lemma increment_int:
  assumes "\<bar>i\<bar> < 2 ^ 53"
  shows "increment (Num (of_int i)) = Num (of_int (i + 1))"
proof -
  have "\<bar>i + 1\<bar> \<le> 2 ^ 53" using assms by linarith
  from round_double_int [OF this] show ?thesis by simp
qed

lemma decrement_int:
  assumes "\<bar>i\<bar> < 2 ^ 53"
  shows "decrement (Num (of_int i)) = Num (of_int (i - 1))"
proof -
  have "\<bar>i - 1\<bar> \<le> 2 ^ 53" using assms by linarith
  from round_double_int [OF this] show ?thesis by simp
qed

lemma round53_tie: "round53 ((2 ^ 53 + 1) * 2 ^ 1074) = 2 ^ 53 * 2 ^ 1074"
proof -
  have b: "bitlen ((2 ^ 53 + 1) * 2 ^ 1074) = 1128"
  proof -
    have "bitlen (2 ^ 53 + 1) = 54"
      using bitlen_twopow_add_eq [of 1 53] by simp
    moreover have "bitlen ((2 ^ 53 + 1) * 2 ^ 1074) = bitlen (2 ^ 53 + 1) + int 1074"
      by (rule bitlen_pow2) simp
    ultimately show ?thesis by simp
  qed
  show ?thesis
    unfolding round53_def Let_def b
    by simp
qed

lemma increment_tie: "increment (Num (2 ^ 53)) = Num (2 ^ 53)"
proof -
  have k: "\<lfloor>((2 ^ 53 + 1) :: rat) * 2 ^ 1074\<rfloor> = (2 ^ 53 + 1) * 2 ^ 1074"
  proof -
    have "((2 ^ 53 + 1) :: rat) * 2 ^ 1074 = of_int ((2 ^ 53 + 1) * 2 ^ 1074)" by simp
    then show ?thesis by (simp only: floor_of_int)
  qed
  have a: "\<bar>(2 ^ 53 + 1) * 2 ^ 1074 :: int\<bar> = (2 ^ 53 + 1) * 2 ^ 1074" by simp
  have "round_double (2 ^ 53 + 1) = Num (2 ^ 53)"
    unfolding round_double_def Let_def k a round53_tie
    by simp
  then show ?thesis by simp
qed

lemma decrement_tie: "decrement (Num (- (2 ^ 53))) = Num (- (2 ^ 53))"
proof -
  have k: "\<lfloor>(- (2 ^ 53) - 1 :: rat) * 2 ^ 1074\<rfloor> = - ((2 ^ 53 + 1) * 2 ^ 1074)"
  proof -
    have "(- (2 ^ 53) - 1 :: rat) * 2 ^ 1074 = of_int (- ((2 ^ 53 + 1) * 2 ^ 1074))" by simp
    then show ?thesis by (simp only: floor_of_int)
  qed
  have a: "\<bar>- ((2 ^ 53 + 1) * 2 ^ 1074) :: int\<bar> = (2 ^ 53 + 1) * 2 ^ 1074" by simp
  have "round_double (- (2 ^ 53) - 1) = Num (- (2 ^ 53))"
    unfolding round_double_def Let_def k a round53_tie
    by simp
  then show ?thesis by simp
qed

section \<open>The direction table and the rotation\<close>

lemma indexOf_bounds: "-1 \<le> indexOf xs v \<and> indexOf xs v < int (length xs)"
  by (induction xs) (auto simp: Let_def)

lemma indexOf_directions:
  "indexOf (map JStr directions) v \<in> {-1, 0, 1, 2, 3}"
proof -
  have "length (map JStr directions) = 4" by (simp add: directions_def)
  with indexOf_bounds [of "map JStr directions" v]
  have "-1 \<le> indexOf (map JStr directions) v \<and> indexOf (map JStr directions) v < 4"
    by simp
  then show ?thesis by auto
qed

lemma orient_cases:
  "orient v r = (if v \<in> JStr ` set directions then (Inr JUndefined, r\<lparr>orientation := v\<rparr>)
     else (Inl (InvalidInputError ''Must enter a valid orientation''), r))"
  by (simp add: orient_def)

lemma element_directions:
  "i \<in> {0, 1, 2, 3} \<Longrightarrow> element (map JStr directions) i \<in> JStr ` set directions"
  by (auto simp: directions_def element_def)

lemma smod_4_cases:
  "i \<in> {-1, 0, 1, 2, 3} \<Longrightarrow> d = 1 \<or> d = 3 \<Longrightarrow> (i + d) smod (4::int) \<in> {0, 1, 2, 3}"
  by (auto simp: signed_modulo_int_def)

lemma turn_new_orientation:
  assumes "d = 1 \<or> d = 3"
  shows "element (map JStr directions)
           ((indexOf (map JStr directions) v + d) smod int (length directions))
           \<in> JStr ` set directions"
proof -
  have "int (length directions) = 4" by (simp add: directions_def)
  then show ?thesis
    using smod_4_cases [OF indexOf_directions [of v] assms]
    by (simp only: element_directions)
qed

text \<open>A turn never throws, whatever the orientation was, and sets one of the four names.\<close>

lemma turn_completes:
  "\<exists>d \<in> set directions. turn (JStr t) r = (Inr JUndefined, r\<lparr>orientation := JStr d\<rparr>)"
proof -
  let ?n = "element (map JStr directions)
     ((indexOf (map JStr directions) (bearing r) + (if JStr t = JStr ''right'' then 1 else 3))
        smod int (length directions))"
  have "?n \<in> JStr ` set directions"
    by (rule turn_new_orientation) simp
  then obtain d where d: "d \<in> set directions" "?n = JStr d" by auto
  have "turn (JStr t) r = orient ?n r"
    by (simp add: turn_def Let_def)
  also have "\<dots> = (Inr JUndefined, r\<lparr>orientation := JStr d\<rparr>)"
    using d by (simp add: orient_cases)
  finally show ?thesis using d(1) by blast
qed

lemma turn_coords: "coords (snd (turn (JStr t) r)) = coords r"
  using turn_completes [of t r] by auto

lemma turn_fst: "fst (turn (JStr t) r) = Inr JUndefined"
  using turn_completes [of t r] by auto

lemma turn_table:
  "turnRight (r\<lparr>orientation := JStr ''north''\<rparr>) = (Inr JUndefined, r\<lparr>orientation := JStr ''east''\<rparr>)"
  "turnRight (r\<lparr>orientation := JStr ''east''\<rparr>) = (Inr JUndefined, r\<lparr>orientation := JStr ''south''\<rparr>)"
  "turnRight (r\<lparr>orientation := JStr ''south''\<rparr>) = (Inr JUndefined, r\<lparr>orientation := JStr ''west''\<rparr>)"
  "turnRight (r\<lparr>orientation := JStr ''west''\<rparr>) = (Inr JUndefined, r\<lparr>orientation := JStr ''north''\<rparr>)"
  "turnLeft (r\<lparr>orientation := JStr ''north''\<rparr>) = (Inr JUndefined, r\<lparr>orientation := JStr ''west''\<rparr>)"
  "turnLeft (r\<lparr>orientation := JStr ''east''\<rparr>) = (Inr JUndefined, r\<lparr>orientation := JStr ''north''\<rparr>)"
  "turnLeft (r\<lparr>orientation := JStr ''south''\<rparr>) = (Inr JUndefined, r\<lparr>orientation := JStr ''east''\<rparr>)"
  "turnLeft (r\<lparr>orientation := JStr ''west''\<rparr>) = (Inr JUndefined, r\<lparr>orientation := JStr ''south''\<rparr>)"
  by (simp_all add: turnRight_def turnLeft_def turn_def bearing_def directions_def element_def
      orient_def Let_def signed_modulo_int_def)

text \<open>
  C6. From each of the four orientations, \<open>turnRight\<close> then \<open>turnLeft\<close>, and \<open>turnLeft\<close>
  then \<open>turnRight\<close>, return to the orientation they started from; so do four calls of
  \<open>turnRight\<close> and four calls of \<open>turnLeft\<close>. None of the calls throws, and a turn leaves
  the coordinates of any robot as they were.
\<close>

theorem rotation_cycles:
  assumes "orientation r \<in> set (map JStr directions)"
  shows "turnLeft (snd (turnRight r)) = (Inr JUndefined, r)
       \<and> turnRight (snd (turnLeft r)) = (Inr JUndefined, r)
       \<and> turnRight (snd (turnRight (snd (turnRight (snd (turnRight r)))))) = (Inr JUndefined, r)
       \<and> turnLeft (snd (turnLeft (snd (turnLeft (snd (turnLeft r)))))) = (Inr JUndefined, r)
       \<and> fst (turnRight r') = Inr JUndefined
       \<and> fst (turnLeft r') = Inr JUndefined
       \<and> coords (snd (turnRight r')) = coords r'
       \<and> coords (snd (turnLeft r')) = coords r'"
proof -
  have r: "r = r\<lparr>orientation := orientation r\<rparr>" by simp
  from assms consider "orientation r = JStr ''north''" | "orientation r = JStr ''east''"
    | "orientation r = JStr ''south''" | "orientation r = JStr ''west''"
    by (auto simp: directions_def)
  then have "turnLeft (snd (turnRight r)) = (Inr JUndefined, r)
       \<and> turnRight (snd (turnLeft r)) = (Inr JUndefined, r)
       \<and> turnRight (snd (turnRight (snd (turnRight (snd (turnRight r)))))) = (Inr JUndefined, r)
       \<and> turnLeft (snd (turnLeft (snd (turnLeft (snd (turnLeft r)))))) = (Inr JUndefined, r)"
  proof cases
    case 1
    with r have "r = r\<lparr>orientation := JStr ''north''\<rparr>" by simp
    then show ?thesis using turn_table [of r] by (metis snd_conv)
  next
    case 2
    with r have "r = r\<lparr>orientation := JStr ''east''\<rparr>" by simp
    then show ?thesis using turn_table [of r] by (metis snd_conv)
  next
    case 3
    with r have "r = r\<lparr>orientation := JStr ''south''\<rparr>" by simp
    then show ?thesis using turn_table [of r] by (metis snd_conv)
  next
    case 4
    with r have "r = r\<lparr>orientation := JStr ''west''\<rparr>" by simp
    then show ?thesis using turn_table [of r] by (metis snd_conv)
  qed
  then show ?thesis
    by (simp add: turnRight_def turnLeft_def turn_coords turn_fst)
qed

theorem rotation_cycles_witness:
  "orientation \<lparr>orientation = JStr ''east'', coords = Some (Num 1, Num 2)\<rparr>
       \<in> set (map JStr directions)
   \<and> turnRight \<lparr>orientation = JStr ''east'', coords = Some (Num 1, Num 2)\<rparr>
       = (Inr JUndefined, \<lparr>orientation = JStr ''south'', coords = Some (Num 1, Num 2)\<rparr>)
   \<and> turnLeft \<lparr>orientation = JStr ''south'', coords = Some (Num 1, Num 2)\<rparr>
       = (Inr JUndefined, \<lparr>orientation = JStr ''east'', coords = Some (Num 1, Num 2)\<rparr>)
   \<and> turnLeft (snd (turnRight \<lparr>orientation = JStr ''east'', coords = Some (Num 1, Num 2)\<rparr>))
       = (Inr JUndefined, \<lparr>orientation = JStr ''east'', coords = Some (Num 1, Num 2)\<rparr>)
   \<and> turnRight (snd (turnRight (snd (turnRight (snd (turnRight
         \<lparr>orientation = JStr ''east'', coords = Some (Num 1, Num 2)\<rparr>))))))
       = (Inr JUndefined, \<lparr>orientation = JStr ''east'', coords = Some (Num 1, Num 2)\<rparr>)"
proof -
  have h: "orientation \<lparr>orientation = JStr ''east'', coords = Some (Num 1, Num 2)\<rparr>
       \<in> set (map JStr directions)"
    by (simp add: directions_def)
  have t: "turnRight \<lparr>orientation = JStr ''east'', coords = Some (Num 1, Num 2)\<rparr>
       = (Inr JUndefined, \<lparr>orientation = JStr ''south'', coords = Some (Num 1, Num 2)\<rparr>)"
    using turn_table(2) [of "\<lparr>orientation = JStr ''east'', coords = Some (Num 1, Num 2)\<rparr>"]
    by simp
  show ?thesis
    using h t rotation_cycles [OF h] by simp
qed

section \<open>advance\<close>

lemma advance_orientation: "orientation (snd (advance r)) = orientation r"
  by (simp add: advance_def split: option.splits prod.splits)

lemma advance_placed:
  assumes "coords r \<noteq> None"
  shows "(\<exists>x. fst (advance r) = Inr x) \<and> coords (snd (advance r)) \<noteq> None"
proof -
  from assms obtain x y where "coords r = Some (x, y)" by auto
  then show ?thesis by (simp add: advance_def)
qed

text \<open>
  C5, as amended. A robot that has coordinates advances without throwing and keeps its
  orientation, whatever Numbers the coordinates are. When the coordinates are integers
  \<open>x\<close> and \<open>y\<close> of magnitude below \<open>2^53\<close>, a robot that faces north advances to
  \<open>(x, y + 1)\<close>, east to \<open>(x + 1, y)\<close>, south to \<open>(x, y - 1)\<close>, west to \<open>(x - 1, y)\<close>; the
  call returns the coordinate as it was (the value of the post-increment), and nothing
  but the coordinates changes.
\<close>

theorem advance_one_unit:
  assumes "coords r = Some (Num (of_int x), Num (of_int y))"
    and "\<bar>x\<bar> < 2 ^ 53" and "\<bar>y\<bar> < 2 ^ 53"
  shows "(orientation r = JStr ''north'' \<longrightarrow>
            advance r = (Inr (JNum (Num (of_int y))),
              r\<lparr>coords := Some (Num (of_int x), Num (of_int (y + 1)))\<rparr>))
       \<and> (orientation r = JStr ''east'' \<longrightarrow>
            advance r = (Inr (JNum (Num (of_int x))),
              r\<lparr>coords := Some (Num (of_int (x + 1)), Num (of_int y))\<rparr>))
       \<and> (orientation r = JStr ''south'' \<longrightarrow>
            advance r = (Inr (JNum (Num (of_int y))),
              r\<lparr>coords := Some (Num (of_int x), Num (of_int (y - 1)))\<rparr>))
       \<and> (orientation r = JStr ''west'' \<longrightarrow>
            advance r = (Inr (JNum (Num (of_int x))),
              r\<lparr>coords := Some (Num (of_int (x - 1)), Num (of_int y))\<rparr>))
       \<and> (coords r' \<noteq> None \<longrightarrow>
            (\<exists>v. fst (advance r') = Inr v) \<and> orientation (snd (advance r')) = orientation r')"
proof -
  note moves =
    increment_int [OF assms(2), simplified] increment_int [OF assms(3), simplified]
    decrement_int [OF assms(2), simplified] decrement_int [OF assms(3), simplified]
  have "coords r' \<noteq> None \<longrightarrow>
      (\<exists>v. fst (advance r') = Inr v) \<and> orientation (snd (advance r')) = orientation r'"
    using advance_placed [of r'] advance_orientation [of r'] by blast
  then show ?thesis
    using assms(1) by (simp add: advance_def moves)
qed

theorem advance_one_unit_witness:
  "advance \<lparr>orientation = JStr ''north'', coords = Some (Num 2, Num 5)\<rparr>
      = (Inr (JNum (Num 5)), \<lparr>orientation = JStr ''north'', coords = Some (Num 2, Num 6)\<rparr>)
   \<and> advance \<lparr>orientation = JStr ''east'', coords = Some (Num 2, Num 5)\<rparr>
      = (Inr (JNum (Num 2)), \<lparr>orientation = JStr ''east'', coords = Some (Num 3, Num 5)\<rparr>)
   \<and> advance \<lparr>orientation = JStr ''south'', coords = Some (Num 2, Num 5)\<rparr>
      = (Inr (JNum (Num 5)), \<lparr>orientation = JStr ''south'', coords = Some (Num 2, Num 4)\<rparr>)
   \<and> advance \<lparr>orientation = JStr ''west'', coords = Some (Num 2, Num 5)\<rparr>
      = (Inr (JNum (Num 2)), \<lparr>orientation = JStr ''west'', coords = Some (Num 1, Num 5)\<rparr>)
   \<and> orientation (snd (advance \<lparr>orientation = JStr ''west'', coords = Some (Num (1 / 2), Infinity)\<rparr>))
      = JStr ''west''"
  using advance_one_unit [of "\<lparr>orientation = JStr ''north'', coords = Some (Num 2, Num 5)\<rparr>" 2 5
      "\<lparr>orientation = JStr ''west'', coords = Some (Num (1 / 2), Infinity)\<rparr>"]
    advance_one_unit [of "\<lparr>orientation = JStr ''east'', coords = Some (Num 2, Num 5)\<rparr>" 2 5]
    advance_one_unit [of "\<lparr>orientation = JStr ''south'', coords = Some (Num 2, Num 5)\<rparr>" 2 5]
    advance_one_unit [of "\<lparr>orientation = JStr ''west'', coords = Some (Num 2, Num 5)\<rparr>" 2 5]
  by simp

text \<open>
  C5 as stated fails beyond the safe integers. \<open>place\<close> accepts \<open>y = 2^53\<close>, and the
  robot that faces north there does not move when it advances: \<open>2^53 + 1\<close> is no double,
  and the sum is rounded back to \<open>2^53\<close>. Nor does the robot that faces south at
  \<open>y = -2^53\<close>.
\<close>

theorem advance_stays_at_2_53:
  "place (JObj [(''x'', JNum (Num 0)), (''y'', JNum (Num (2 ^ 53))),
       (''direction'', JStr ''north'')]) new_Robot
     = (Inr JUndefined, \<lparr>orientation = JStr ''north'', coords = Some (Num 0, Num (2 ^ 53))\<rparr>)
   \<and> advance \<lparr>orientation = JStr ''north'', coords = Some (Num 0, Num (2 ^ 53))\<rparr>
     = (Inr (JNum (Num (2 ^ 53))),
        \<lparr>orientation = JStr ''north'', coords = Some (Num 0, Num (2 ^ 53))\<rparr>)
   \<and> Num (2 ^ 53) \<noteq> Num (2 ^ 53 + 1)
   \<and> advance \<lparr>orientation = JStr ''south'', coords = Some (Num 0, Num (- (2 ^ 53)))\<rparr>
     = (Inr (JNum (Num (- (2 ^ 53)))),
        \<lparr>orientation = JStr ''south'', coords = Some (Num 0, Num (- (2 ^ 53)))\<rparr>)"
  by (simp add: place_def at_coords_def orient_def directions_def validateObject_def new_Robot_def
      advance_def increment_tie [simplified] decrement_tie [simplified])

text \<open>
  C9. On a robot whose orientation is unset, \<open>advance\<close> takes the default branch of the
  switch: it returns the coordinates as they are (\<^verbatim>\<open>undefined\<close> when they are unset too),
  throws nothing and leaves the robot as it was.
\<close>

theorem advance_unset_orientation:
  assumes "orientation r = JUndefined"
  shows "advance r = (Inr (coordinates r), r)"
  using assms by (simp add: advance_def)

theorem advance_unset_orientation_witness:
  "orientation new_Robot = JUndefined
   \<and> advance new_Robot = (Inr JUndefined, new_Robot)
   \<and> orientation \<lparr>orientation = JUndefined, coords = Some (Num 3, Num 4)\<rparr> = JUndefined
   \<and> advance \<lparr>orientation = JUndefined, coords = Some (Num 3, Num 4)\<rparr> =
       (Inr (JArr [JNum (Num 3), JNum (Num 4)]),
        \<lparr>orientation = JUndefined, coords = Some (Num 3, Num 4)\<rparr>)"
  using advance_unset_orientation [of new_Robot]
    advance_unset_orientation [of "\<lparr>orientation = JUndefined, coords = Some (Num 3, Num 4)\<rparr>"]
  by (simp add: new_Robot_def coordinates_def)

text \<open>
  C10. On a robot whose orientation was never set, \<open>indexOf\<close> finds the bearing nowhere
  in the direction table and yields \<open>-1\<close>; \<open>(-1 + 1) % 4\<close> is \<open>0\<close> and \<open>(-1 + 3) % 4\<close> is
  \<open>2\<close>; so \<open>turnRight\<close> sets the orientation north and \<open>turnLeft\<close> sets it south, and
  neither throws.
\<close>

theorem turn_unset_orientation:
  assumes "orientation r = JUndefined"
  shows "indexOf (map JStr directions) (bearing r) = -1
    \<and> (-1 + 1) smod int (length directions) = 0
    \<and> (-1 + 3) smod int (length directions) = 2
    \<and> turnRight r = (Inr JUndefined, r\<lparr>orientation := JStr ''north''\<rparr>)
    \<and> turnLeft r = (Inr JUndefined, r\<lparr>orientation := JStr ''south''\<rparr>)"
  using assms
  by (simp add: turnRight_def turnLeft_def turn_def bearing_def directions_def element_def
      orient_def Let_def signed_modulo_int_def)

theorem turn_unset_orientation_witness:
  "orientation new_Robot = JUndefined
    \<and> turnRight new_Robot = (Inr JUndefined, \<lparr>orientation = JStr ''north'', coords = None\<rparr>)
    \<and> turnLeft new_Robot = (Inr JUndefined, \<lparr>orientation = JStr ''south'', coords = None\<rparr>)"
  using turn_unset_orientation [of new_Robot]
  by (simp add: new_Robot_def)

section \<open>Decoding a command string\<close>

lemma char_of_eq_iff: "(char_of (m::nat) = c) \<longleftrightarrow> m mod 256 = of_char c"
proof -
  have "(char_of m = c) \<longleftrightarrow> (of_char (char_of m :: char) = (of_char c :: nat))"
    by (simp only: of_char_eq_iff)
  then show ?thesis by simp
qed

lemma char_eq_code: "(c = d) \<longleftrightarrow> (of_char c :: nat) = of_char d"
  by simp

text \<open>Which characters \<open>toUpperCase_char\<close> sends to a given character below \<open>a\<close>.\<close>

lemma toUpperCase_char_iff:
  assumes "(of_char u :: nat) < 97"
  shows "toUpperCase_char c = u \<longleftrightarrow>
    (c = u \<or> of_char c = (of_char u :: nat) + 32 \<and> 65 \<le> (of_char u :: nat) \<and> (of_char u :: nat) \<le> 90)"
proof (cases "97 \<le> (of_char c :: nat) \<and> (of_char c :: nat) \<le> 122")
  case True
  then have "toUpperCase_char c = u \<longleftrightarrow> (of_char c - 32) mod 256 = (of_char u :: nat)"
    by (simp add: toUpperCase_char_def Let_def char_of_eq_iff)
  also have "\<dots> \<longleftrightarrow> of_char c = (of_char u :: nat) + 32"
    using True by auto
  finally show ?thesis
    using True assms by auto
next
  case False
  then have "toUpperCase_char c = u \<longleftrightarrow> c = u"
    by (auto simp add: toUpperCase_char_def Let_def)
  also have "\<dots> \<longleftrightarrow> (of_char c :: nat) = of_char u"
    by simp
  finally show ?thesis
    using False assms by auto
qed

lemma toUpperCase_char_ARL: "toUpperCase_char c \<in> set ''ARL'' \<longleftrightarrow> c \<in> set ''ARLarl''"
proof -
  have a: "toUpperCase_char c = CHR ''A'' \<longleftrightarrow> c = CHR ''A'' \<or> c = CHR ''a''"
    by (subst toUpperCase_char_iff) (auto simp: char_eq_code[of c])
  have r: "toUpperCase_char c = CHR ''R'' \<longleftrightarrow> c = CHR ''R'' \<or> c = CHR ''r''"
    by (subst toUpperCase_char_iff) (auto simp: char_eq_code[of c])
  have l: "toUpperCase_char c = CHR ''L'' \<longleftrightarrow> c = CHR ''L'' \<or> c = CHR ''l''"
    by (subst toUpperCase_char_iff) (auto simp: char_eq_code[of c])
  show ?thesis using a r l by auto
qed

lemma test_ARL_toUpperCase:
  "test_ARL (toUpperCase s) \<longleftrightarrow> s \<noteq> [] \<and> set s \<subseteq> set ''ARLarl''"
proof -
  have "list_all (\<lambda>c. c \<in> set ''ARL'') (map toUpperCase_char s)
      \<longleftrightarrow> (\<forall>c \<in> set s. c \<in> set ''ARLarl'')"
    by (simp only: list_all_iff set_map ball_simps toUpperCase_char_ARL)
  then show ?thesis
    by (auto simp: test_ARL_def toUpperCase_def)
qed

lemma instructions_cases:
  "instructions v =
     (case v of
        JStr s \<Rightarrow> if s \<noteq> [] \<and> set s \<subseteq> set ''ARLarl'' then Inr (map command_of s)
                  else Inl (InvalidInputError instructions_message)
      | _ \<Rightarrow> Inl (InvalidInputError instructions_message))"
  by (cases v) (simp_all add: test_ARL_toUpperCase)

text \<open>
  C2. The decoder accepts \<^verbatim>\<open>"laar"\<close>, since the test is made on the upper-cased string,
  and looks the lower-case letters up in \<open>commands\<close> as they are: the result is four
  times \<^verbatim>\<open>undefined\<close>, where \<^verbatim>\<open>"LAAR"\<close> gives the four method names; \<open>evaluate\<close> then
  throws a \<^verbatim>\<open>TypeError\<close> at the first of them.
\<close>

theorem instructions_lowercase:
  "instructions (JStr ''laar'') = Inr [JUndefined, JUndefined, JUndefined, JUndefined]
   \<and> instructions (JStr ''LAAR'')
       = Inr [JStr ''turnLeft'', JStr ''advance'', JStr ''advance'', JStr ''turnRight'']
   \<and> evaluate (JStr ''laar'') \<lparr>orientation = JStr ''north'', coords = Some (Num 0, Num 0)\<rparr>
       = (Inl TypeError, \<lparr>orientation = JStr ''north'', coords = Some (Num 0, Num 0)\<rparr>)"
  by (simp add: instructions_cases evaluate_def command_of_def commands_def call_method_def)

text \<open>
  C7. A value that is not a string, the empty string, and a string with a character
  other than \<open>A\<close>, \<open>L\<close>, \<open>R\<close> in either case are all rejected by the decoder with an
  \<^verbatim>\<open>InvalidInputError\<close>: no list of instructions is returned.
\<close>

theorem instructions_rejects:
  assumes "\<not> validateString v \<or> v = JStr []
    \<or> (v = JStr s \<and> c \<in> set s \<and> c \<notin> set ''ARLarl'')"
  shows "instructions v = Inl (InvalidInputError instructions_message)"
  using assms by (cases v) (auto simp: instructions_cases)

theorem instructions_rejects_witness:
  "instructions (JStr ''XYZ'') = Inl (InvalidInputError instructions_message)
   \<and> instructions (JStr []) = Inl (InvalidInputError instructions_message)
   \<and> instructions (JNum (Num 7)) = Inl (InvalidInputError instructions_message)
   \<and> instructions (JStr ''LAxR'') = Inl (InvalidInputError instructions_message)"
  using instructions_rejects [of "JStr ''XYZ''" "''XYZ''" "CHR ''X''"]
    instructions_rejects [of "JStr []" "[]" "CHR ''X''"]
    instructions_rejects [of "JNum (Num 7)" "[]" "CHR ''X''"]
    instructions_rejects [of "JStr ''LAxR''" "''LAxR''" "CHR ''x''"]
  by simp

section \<open>evaluate\<close>

lemma call_method_placed:
  assumes "coords r \<noteq> None"
    and "c \<in> {JStr ''advance'', JStr ''turnLeft'', JStr ''turnRight''}"
  shows "(\<exists>x. fst (call_method c r) = Inr x) \<and> coords (snd (call_method c r)) \<noteq> None"
  using assms advance_placed [OF assms(1)]
  by (auto simp: call_method_def turnLeft_def turnRight_def turn_fst turn_coords)

lemma forEach_placed:
  assumes "coords r \<noteq> None"
    and "set cs \<subseteq> {JStr ''advance'', JStr ''turnLeft'', JStr ''turnRight''}"
  shows "forEach cs r = (Inr JUndefined, run_all cs r)"
  using assms
proof (induction cs arbitrary: r)
  case Nil
  then show ?case by simp
next
  case (Cons c cs)
  from Cons.prems have c: "c \<in> {JStr ''advance'', JStr ''turnLeft'', JStr ''turnRight''}"
    and cs: "set cs \<subseteq> {JStr ''advance'', JStr ''turnLeft'', JStr ''turnRight''}"
    by simp_all
  from call_method_placed [OF Cons.prems(1) c]
  obtain x where x: "fst (call_method c r) = Inr x"
    and p: "coords (snd (call_method c r)) \<noteq> None" by blast
  from x have "call_method c r = (Inr x, snd (call_method c r))"
    by (metis prod.collapse)
  then have "forEach (c # cs) r = forEach cs (snd (call_method c r))"
    by (metis (no_types, lifting) forEach.simps(2) old.prod.case sum.case(2))
  with Cons.IH [OF p cs] show ?case by simp
qed

lemma command_of_upper:
  "c \<in> set ''ARL'' \<Longrightarrow> command_of c \<in> {JStr ''advance'', JStr ''turnLeft'', JStr ''turnRight''}"
  by (auto simp: command_of_def commands_def)

text \<open>
  C3, as amended. When the decoder rejects the input, \<open>evaluate\<close> throws the decoder's
  error, no method is called and the robot is as it was. When the input is a non-empty
  string of the upper-case letters \<open>A\<close>, \<open>L\<close>, \<open>R\<close> and the robot has coordinates,
  the decoder returns one method name per letter, \<open>evaluate\<close> calls every one of them in
  order and returns without throwing.
\<close>

theorem evaluate_all_or_nothing:
  "(instructions v = Inl e \<longrightarrow> evaluate v r = (Inl e, r))
   \<and> (s \<noteq> [] \<and> set s \<subseteq> set ''ARL'' \<and> coords r \<noteq> None \<longrightarrow>
        instructions (JStr s) = Inr (map command_of s)
        \<and> set (map command_of s) \<subseteq> {JStr ''advance'', JStr ''turnLeft'', JStr ''turnRight''}
        \<and> evaluate (JStr s) r = (Inr JUndefined, run_all (map command_of s) r))"
proof -
  have 1: "instructions v = Inl e \<longrightarrow> evaluate v r = (Inl e, r)"
    by (simp add: evaluate_def)
  have 2: "instructions (JStr s) = Inr (map command_of s)
        \<and> set (map command_of s) \<subseteq> {JStr ''advance'', JStr ''turnLeft'', JStr ''turnRight''}
        \<and> evaluate (JStr s) r = (Inr JUndefined, run_all (map command_of s) r)"
    if s: "s \<noteq> []" "set s \<subseteq> set ''ARL''" and r: "coords r \<noteq> None"
  proof -
    from s have i: "instructions (JStr s) = Inr (map command_of s)"
      by (auto simp: instructions_cases)
    from s(2) have m: "set (map command_of s) \<subseteq> {JStr ''advance'', JStr ''turnLeft'', JStr ''turnRight''}"
      using command_of_upper by auto
    from i forEach_placed [OF r m] show ?thesis
      using m by (simp add: evaluate_def)
  qed
  from 1 2 show ?thesis by blast
qed

theorem evaluate_all_or_nothing_witness:
  "instructions (JStr ''AxR'') = Inl (InvalidInputError instructions_message)
   \<and> evaluate (JStr ''AxR'') \<lparr>orientation = JStr ''north'', coords = Some (Num 0, Num 0)\<rparr>
       = (Inl (InvalidInputError instructions_message),
          \<lparr>orientation = JStr ''north'', coords = Some (Num 0, Num 0)\<rparr>)
   \<and> evaluate (JStr ''LAAR'') \<lparr>orientation = JStr ''north'', coords = Some (Num 0, Num 0)\<rparr>
       = (Inr JUndefined, \<lparr>orientation = JStr ''north'', coords = Some (Num (-2), Num 0)\<rparr>)"
proof -
  have i: "instructions (JStr ''AxR'') = Inl (InvalidInputError instructions_message)"
    by (simp add: instructions_cases)
  have h: "''LAAR'' \<noteq> [] \<and> set ''LAAR'' \<subseteq> set ''ARL''
      \<and> coords \<lparr>orientation = JStr ''north'', coords = Some (Num 0, Num 0)\<rparr> \<noteq> None"
    by simp
  have run: "run_all (map command_of ''LAAR'') \<lparr>orientation = JStr ''north'', coords = Some (Num 0, Num 0)\<rparr>
      = \<lparr>orientation = JStr ''north'', coords = Some (Num (-2), Num 0)\<rparr>"
    by (simp add: command_of_def commands_def call_method_def advance_def
        turn_table [of "\<lparr>orientation = JStr ''north'', coords = Some (Num 0, Num 0)\<rparr>", simplified]
        turn_table [of "\<lparr>orientation = JStr ''north'', coords = Some (Num (-2), Num 0)\<rparr>", simplified]
        decrement_int [of 0, simplified] decrement_int [of "- 1", simplified])
  show ?thesis
    using i h run
      evaluate_all_or_nothing [of "JStr ''AxR''" "InvalidInputError instructions_message"
        "\<lparr>orientation = JStr ''north'', coords = Some (Num 0, Num 0)\<rparr>" "''LAAR''"]
    by simp
qed

text \<open>
  C3 as stated fails on a new robot: \<^verbatim>\<open>"RA"\<close> is decoded, \<open>turnRight\<close> sets the
  orientation north, and \<open>advance\<close> then reads \<^verbatim>\<open>this.coords[1]\<close> of a robot that has no
  coordinates. The \<^verbatim>\<open>TypeError\<close> ends the loop with the orientation changed.
\<close>

theorem evaluate_stops_partway:
  "instructions (JStr ''RA'') = Inr [JStr ''turnRight'', JStr ''advance'']
   \<and> evaluate (JStr ''RA'') new_Robot
       = (Inl TypeError, \<lparr>orientation = JStr ''north'', coords = None\<rparr>)
   \<and> \<lparr>orientation = JStr ''north'', coords = None\<rparr> \<noteq> new_Robot"
  by (simp add: instructions_cases evaluate_def command_of_def commands_def call_method_def
      new_Robot_def turnRight_def turn_def bearing_def directions_def element_def
      orient_def Let_def signed_modulo_int_def advance_def)

section \<open>place\<close>

text \<open>The five ways through \<open>place\<close>, in the order the source takes them.\<close>

lemma place_cases:
  "place p r =
     (if \<not> validateObject p then (Inl (Error ''Invalid placement data type''), r)
      else if Object_keys p = [] then (Inl (Error ''Placement data must not be empty''), r)
      else if \<not> (validateNumber (get_property p ''x'') \<and> validateNumber (get_property p ''y''))
        then (Inl (InvalidInputError ''Must enter valid coordinates''), r)
      else if get_property p ''direction'' \<notin> JStr ` set directions
        then (Inl (InvalidInputError ''Must enter a valid orientation''),
              r\<lparr>coords := Some (number_of (get_property p ''x''), number_of (get_property p ''y''))\<rparr>)
      else (Inr JUndefined,
            r\<lparr>coords := Some (number_of (get_property p ''x''), number_of (get_property p ''y'')),
              orientation := get_property p ''direction''\<rparr>))"
  by (simp add: place_def at_coords_def orient_def Let_def)

text \<open>
  C1, as amended. A call of \<open>place\<close> that throws leaves the orientation as it was. It
  leaves the coordinates as they were too when the argument is no record, when it is an
  empty record, and when \<open>x\<close> or \<open>y\<close> is not a valid number. For a record that is not
  empty the error is an \<^verbatim>\<open>InvalidInputError\<close>; when its \<open>x\<close> and \<open>y\<close> are valid numbers,
  what failed is the direction, and the coordinates have been set to \<open>(x, y)\<close> by then.
\<close>

theorem place_failure:
  assumes "fst (place p r) = Inl e"
  shows "orientation (snd (place p r)) = orientation r
    \<and> (\<not> (validateNumber (get_property p ''x'') \<and> validateNumber (get_property p ''y''))
          \<longrightarrow> snd (place p r) = r)
    \<and> (validateObject p \<and> Object_keys p \<noteq> [] \<longrightarrow> is_InvalidInput e)
    \<and> (validateObject p \<and> Object_keys p \<noteq> []
         \<and> get_property p ''x'' = JNum (Num a) \<and> get_property p ''y'' = JNum (Num b)
          \<longrightarrow> e = InvalidInputError ''Must enter a valid orientation''
              \<and> snd (place p r) = r\<lparr>coords := Some (Num a, Num b)\<rparr>)
    \<and> (\<not> validateObject p \<longrightarrow> snd (place p r) = r)
    \<and> (Object_keys p = [] \<longrightarrow> snd (place p r) = r)
    \<and> (validateObject p \<and> Object_keys p \<noteq> []
         \<and> validateNumber (get_property p ''x'') \<and> validateNumber (get_property p ''y'')
          \<longrightarrow> e = InvalidInputError ''Must enter a valid orientation''
              \<and> snd (place p r) = r\<lparr>coords :=
                    Some (number_of (get_property p ''x''), number_of (get_property p ''y''))\<rparr>)"
  using assms by (auto simp: place_cases split: if_splits)

theorem place_failure_witness:
  "place (JObj [(''x'', JNum (Num 1)), (''y'', JNum (Num 2)), (''direction'', JStr ''up'')])
       \<lparr>orientation = JStr ''north'', coords = Some (Num 0, Num 0)\<rparr>
     = (Inl (InvalidInputError ''Must enter a valid orientation''),
        \<lparr>orientation = JStr ''north'', coords = Some (Num 1, Num 2)\<rparr>)
   \<and> place (JObj [(''x'', JStr ''1''), (''y'', JNum (Num 2)), (''direction'', JStr ''east'')])
       \<lparr>orientation = JStr ''north'', coords = Some (Num 0, Num 0)\<rparr>
     = (Inl (InvalidInputError ''Must enter valid coordinates''),
        \<lparr>orientation = JStr ''north'', coords = Some (Num 0, Num 0)\<rparr>)"
proof -
  let ?r = "\<lparr>orientation = JStr ''north'', coords = Some (Num 0, Num 0)\<rparr>"
  let ?p = "JObj [(''x'', JNum (Num 1)), (''y'', JNum (Num 2)), (''direction'', JStr ''up'')]"
  let ?q = "JObj [(''x'', JStr ''1''), (''y'', JNum (Num 2)), (''direction'', JStr ''east'')]"
  have vp: "validateObject ?p \<and> Object_keys ?p \<noteq> []
      \<and> get_property ?p ''x'' = JNum (Num 1) \<and> get_property ?p ''y'' = JNum (Num 2)"
    by (simp add: validateObject_def)
  have fp: "fst (place ?p ?r) = Inl (InvalidInputError ''Must enter a valid orientation'')"
    by (simp add: place_def at_coords_def orient_def directions_def validateObject_def)
  have vq: "validateObject ?q \<and> Object_keys ?q \<noteq> []
      \<and> \<not> (validateNumber (get_property ?q ''x'') \<and> validateNumber (get_property ?q ''y''))"
    by (simp add: validateObject_def)
  have fq: "fst (place ?q ?r) = Inl (InvalidInputError ''Must enter valid coordinates'')"
    by (simp add: place_def at_coords_def validateObject_def)
  from place_failure [OF fp, of 1 2] vp
  have "snd (place ?p ?r) = \<lparr>orientation = JStr ''north'', coords = Some (Num 1, Num 2)\<rparr>"
    by simp
  moreover from place_failure [OF fq, of 1 2] vq
  have "snd (place ?q ?r) = ?r"
    by simp
  ultimately show ?thesis
    using fp fq by (metis prod.collapse)
qed

text \<open>
  C1 as stated fails: on a robot placed at \<open>(0, 0)\<close> facing north, a placement with
  \<open>x = 1\<close>, \<open>y = 2\<close> and the direction \<^verbatim>\<open>"up"\<close> throws the \<^verbatim>\<open>InvalidInputError\<close> of
  \<open>orient\<close> after \<open>at_coords\<close> has stored \<open>(1, 2)\<close>.
\<close>

theorem place_partial_mutation:
  "place (JObj [(''x'', JNum (Num 0)), (''y'', JNum (Num 0)), (''direction'', JStr ''north'')])
       new_Robot
     = (Inr JUndefined, \<lparr>orientation = JStr ''north'', coords = Some (Num 0, Num 0)\<rparr>)
   \<and> place (JObj [(''x'', JNum (Num 1)), (''y'', JNum (Num 2)), (''direction'', JStr ''up'')])
       \<lparr>orientation = JStr ''north'', coords = Some (Num 0, Num 0)\<rparr>
     = (Inl (InvalidInputError ''Must enter a valid orientation''),
        \<lparr>orientation = JStr ''north'', coords = Some (Num 1, Num 2)\<rparr>)
   \<and> \<lparr>orientation = JStr ''north'', coords = Some (Num 1, Num 2)\<rparr>
       \<noteq> \<lparr>orientation = JStr ''north'', coords = Some (Num 0, Num 0)\<rparr>"
  by (simp add: place_def at_coords_def orient_def directions_def validateObject_def new_Robot_def)

section \<open>The kinds of error\<close>

text \<open>
  C4, as amended. What \<open>orient\<close>, \<open>at_coords\<close> and the decoder throw is an
  \<^verbatim>\<open>InvalidInputError\<close>, \<open>evaluate\<close> throws the decoder's error unchanged, and so is what
  \<open>place\<close> throws for a record that is not empty. For an argument that is no record,
  and for an empty record, \<open>place\<close> throws a plain \<^verbatim>\<open>Error\<close> and changes nothing.
\<close>

theorem validation_error_kinds:
  "(fst (orient v r) = Inl e \<longrightarrow> is_InvalidInput e)
   \<and> (fst (at_coords x y r) = Inl e \<longrightarrow> is_InvalidInput e)
   \<and> (instructions v = Inl e \<longrightarrow> is_InvalidInput e \<and> fst (evaluate v r) = Inl e)
   \<and> (validateObject p \<and> Object_keys p \<noteq> [] \<and> fst (place p r) = Inl e \<longrightarrow> is_InvalidInput e)
   \<and> (\<not> validateObject p \<longrightarrow> place p r = (Inl (Error ''Invalid placement data type''), r))
   \<and> (validateObject p \<and> Object_keys p = [] \<longrightarrow>
        place p r = (Inl (Error ''Placement data must not be empty''), r))"
proof -
  have "instructions v = Inl e \<longrightarrow> is_InvalidInput e"
    by (cases v) (auto simp: instructions_cases split: if_splits)
  then show ?thesis
    by (auto simp: orient_def at_coords_def evaluate_def place_cases split: if_splits)
qed

theorem validation_error_kinds_witness:
  "orient (JStr ''up'') new_Robot
       = (Inl (InvalidInputError ''Must enter a valid orientation''), new_Robot)
   \<and> is_InvalidInput (InvalidInputError ''Must enter a valid orientation'')
   \<and> at_coords (JStr ''1'') (JNum (Num 2)) new_Robot
       = (Inl (InvalidInputError ''Must enter valid coordinates''), new_Robot)
   \<and> is_InvalidInput (InvalidInputError ''Must enter valid coordinates'')
   \<and> instructions (JStr ''XYZ'') = Inl (InvalidInputError instructions_message)
   \<and> fst (evaluate (JStr ''XYZ'') new_Robot) = Inl (InvalidInputError instructions_message)
   \<and> fst (place (JObj [(''x'', JNum (Num 1)), (''y'', JNum (Num 2)), (''direction'', JNull)])
        new_Robot) = Inl (InvalidInputError ''Must enter a valid orientation'')
   \<and> place JNull new_Robot = (Inl (Error ''Invalid placement data type''), new_Robot)
   \<and> place (JObj []) new_Robot = (Inl (Error ''Placement data must not be empty''), new_Robot)"
proof -
  let ?p = "JObj [(''x'', JNum (Num 1)), (''y'', JNum (Num 2)), (''direction'', JNull)]"
  have o: "orient (JStr ''up'') new_Robot
       = (Inl (InvalidInputError ''Must enter a valid orientation''), new_Robot)"
    by (simp add: orient_def directions_def)
  have a: "at_coords (JStr ''1'') (JNum (Num 2)) new_Robot
       = (Inl (InvalidInputError ''Must enter valid coordinates''), new_Robot)"
    by (simp add: at_coords_def)
  have i: "instructions (JStr ''XYZ'') = Inl (InvalidInputError instructions_message)"
    by (simp add: instructions_cases)
  have p: "validateObject ?p \<and> Object_keys ?p \<noteq> []
      \<and> fst (place ?p new_Robot) = Inl (InvalidInputError ''Must enter a valid orientation'')"
    by (simp add: place_def at_coords_def orient_def directions_def validateObject_def)
  have n: "\<not> validateObject JNull" and m: "validateObject (JObj []) \<and> Object_keys (JObj []) = []"
    by (simp_all add: validateObject_def)
  show ?thesis
    using o a i p n m
      validation_error_kinds [of "JStr ''up''" new_Robot
        "InvalidInputError ''Must enter a valid orientation''" "JStr ''1''" "JNum (Num 2)" ?p]
      validation_error_kinds [of "JStr ''XYZ''" new_Robot
        "InvalidInputError instructions_message" "JStr ''1''" "JNum (Num 2)" JNull]
      validation_error_kinds [of "JStr ''XYZ''" new_Robot
        "InvalidInputError instructions_message" "JStr ''1''" "JNum (Num 2)" "JObj []"]
    by simp
qed

text \<open>
  C4 as stated fails: \<^verbatim>\<open>undefined\<close>, an array and the empty record are each rejected by
  \<open>place\<close> with a plain \<^verbatim>\<open>Error\<close>, which is no \<^verbatim>\<open>InvalidInputError\<close>.
\<close>

theorem place_generic_error:
  "place JUndefined new_Robot = (Inl (Error ''Invalid placement data type''), new_Robot)
   \<and> place (JArr [JNum (Num 1), JNum (Num 2)]) new_Robot
       = (Inl (Error ''Invalid placement data type''), new_Robot)
   \<and> place (JObj []) new_Robot = (Inl (Error ''Placement data must not be empty''), new_Robot)
   \<and> \<not> is_InvalidInput (Error ''Invalid placement data type'')
   \<and> \<not> is_InvalidInput (Error ''Placement data must not be empty'')"
  by (simp add: place_def validateObject_def)

section \<open>The orientation stays one of the four names\<close>

lemma at_orientation: "orientation (snd (at_coords x y r)) = orientation r"
  by (simp add: at_coords_def)

lemma orient_valid:
  "orientation r \<in> set (map JStr directions) \<Longrightarrow> orientation (snd (orient v r)) \<in> set (map JStr directions)"
  by (simp add: orient_def)

lemma turn_valid: "orientation (snd (turn (JStr t) r)) \<in> JStr ` set directions"
  using turn_completes [of t r] by auto

lemma call_method_valid:
  "orientation r \<in> set (map JStr directions) \<Longrightarrow>
   orientation (snd (call_method c r)) \<in> set (map JStr directions)"
  by (simp add: call_method_def advance_orientation turnLeft_def turnRight_def turn_valid)

lemma forEach_valid:
  "orientation r \<in> set (map JStr directions) \<Longrightarrow>
   orientation (snd (forEach cs r)) \<in> set (map JStr directions)"
proof (induction cs arbitrary: r)
  case Nil
  then show ?case by simp
next
  case (Cons c cs)
  obtain res r' where c: "call_method c r = (res, r')" by (cases "call_method c r")
  with call_method_valid [OF Cons.prems, of c] have v: "orientation r' \<in> set (map JStr directions)"
    by simp
  show ?case
  proof (cases res)
    case (Inl e)
    with c v show ?thesis by simp
  next
    case (Inr x)
    with c Cons.IH [OF v] show ?thesis by simp
  qed
qed

lemma place_valid:
  assumes "orientation r \<in> set (map JStr directions)"
  shows "orientation (snd (place p r)) \<in> set (map JStr directions)"
proof -
  let ?x = "get_property p ''x''" and ?y = "get_property p ''y''"
  obtain res r' where a: "at_coords ?x ?y r = (res, r')" by (cases "at_coords ?x ?y r")
  with at_orientation [of ?x ?y r] assms have v: "orientation r' \<in> set (map JStr directions)"
    by simp
  show ?thesis
    using assms a v orient_valid [OF v]
    by (cases res) (simp_all add: place_def Let_def)
qed
lemma evaluate_valid:
  assumes "orientation r \<in> set (map JStr directions)"
  shows "orientation (snd (evaluate v r)) \<in> set (map JStr directions)"
  using assms forEach_valid [OF assms]
  by (cases "instructions v") (simp_all add: evaluate_def)

lemma perform_valid:
  assumes "orientation r \<in> set (map JStr directions)"
  shows "orientation (snd (perform c r)) \<in> set (map JStr directions)"
  using assms orient_valid [OF assms] place_valid [OF assms] evaluate_valid [OF assms]
  by (cases c) (simp_all add: turnLeft_def turnRight_def turn_valid advance_orientation at_orientation)

text \<open>
  C8. Once the orientation is one of the four names, it is one of the four names after
  any series of calls of \<open>orient\<close>, \<open>turnLeft\<close>, \<open>turnRight\<close>, \<open>at_coords\<close>, \<open>advance\<close>, \<open>place\<close>
  and \<open>evaluate\<close>, with any arguments, whether the calls return or throw.
\<close>

theorem orientation_stays_valid:
  assumes "orientation r \<in> set (map JStr directions)"
  shows "orientation (perform_all cs r) \<in> set (map JStr directions)"
  using assms
proof (induction cs arbitrary: r)
  case Nil
  then show ?case by simp
next
  case (Cons c cs)
  from perform_valid [OF Cons.prems] have "orientation (snd (perform c r)) \<in> set (map JStr directions)" .
  from Cons.IH [OF this] show ?case by simp
qed

theorem orientation_stays_valid_witness:
  "orientation \<lparr>orientation = JStr ''west'', coords = None\<rparr> \<in> set (map JStr directions)
   \<and> fst (perform (Orient (JStr ''up'')) \<lparr>orientation = JStr ''west'', coords = None\<rparr>)
       = Inl (InvalidInputError ''Must enter a valid orientation'')
   \<and> fst (perform Advance \<lparr>orientation = JStr ''west'', coords = None\<rparr>) = Inl TypeError
   \<and> orientation (perform_all
        [Orient (JStr ''up''), Advance, TurnLeft, Place JNull, Evaluate (JStr ''RAx''),
         Evaluate (JStr ''RA''), TurnRight]
        \<lparr>orientation = JStr ''west'', coords = None\<rparr>) \<in> set (map JStr directions)"
proof -
  have h: "orientation \<lparr>orientation = JStr ''west'', coords = None\<rparr> \<in> set (map JStr directions)"
    by (simp add: directions_def)
  have e: "fst (perform (Orient (JStr ''up'')) \<lparr>orientation = JStr ''west'', coords = None\<rparr>)
       = Inl (InvalidInputError ''Must enter a valid orientation'')"
    by (simp add: orient_def directions_def)
  have a: "fst (perform Advance \<lparr>orientation = JStr ''west'', coords = None\<rparr>) = Inl TypeError"
    by (simp add: advance_def)
  from h e a orientation_stays_valid [OF h] show ?thesis by blast
qed

end
